theory Spec2Isabelle
  imports Main "HOL-Library.Word" "HOL-Library.AList"
begin

section \<open>Payloads, origin markers and the document engine\<close>

text \<open>
  The replicas of \<^verbatim>\<open>src/crdt/peer.ts\<close> wrap a Yjs document. Yjs is a third-party
  library: none of its code belongs to this repository, so the document type \<open>'d\<close> is
  a type parameter and the library entry points the repository calls are the fields
  of the two interface records below. Every function of the repository takes the
  interface it uses as its first argument.

  A \<^verbatim>\<open>Uint8Array\<close> is a list of bytes and its \<^verbatim>\<open>byteLength\<close> is the
  length of the list.
\<close>

type_synonym bytes = "8 word list"

text \<open>
  The origin of a notification has the TypeScript type \<^verbatim>\<open>unknown\<close>. The code only
  compares it with the string \<^verbatim>\<open>'remote'\<close>; \<open>OriginOther\<close> stands for every value
  that is not a string (\<^verbatim>\<open>undefined\<close>, \<^verbatim>\<open>null\<close>, an object).
\<close>

datatype origin = OriginString string | OriginOther

definition remote :: origin where
  "remote = OriginString ''remote''"

text \<open>
  \<open>y_applyUpdate\<close> is \<^verbatim>\<open>Y.applyUpdate(doc, update, origin)\<close>,
  \<open>y_encodeStateVector\<close> is \<^verbatim>\<open>Y.encodeStateVector(doc)\<close>,
  \<open>y_encodeStateAsUpdate\<close> is \<^verbatim>\<open>Y.encodeStateAsUpdate(doc, sv)\<close>, and
  \<open>y_transact\<close> is a local mutation of the document (an edit of type \<open>'e\<close> made by
  the surrounding program under a transaction origin): it returns the changed
  document and the delta the document reports to its \<^verbatim>\<open>'update'\<close> observers.
\<close>

record ('d, 'e) YDoc =
  y_applyUpdate :: "'d \<Rightarrow> bytes \<Rightarrow> origin \<Rightarrow> 'd"
  y_encodeStateVector :: "'d \<Rightarrow> bytes"
  y_encodeStateAsUpdate :: "'d \<Rightarrow> bytes \<Rightarrow> bytes"
  y_transact :: "'e \<Rightarrow> origin \<Rightarrow> 'd \<Rightarrow> 'd \<times> bytes"

text \<open>
  The typed view \<^verbatim>\<open>doc.getMap('counters')\<close> of a document, a \<^verbatim>\<open>Y.Map<number>\<close>:
  \<open>ymap_get\<close> is \<^verbatim>\<open>get(key)\<close> (\<open>None\<close> for \<^verbatim>\<open>undefined\<close>), \<open>ymap_set\<close> is
  \<^verbatim>\<open>set(key, value)\<close>, and \<open>ymap_forEach\<close> lists the entries in the order in which
  \<^verbatim>\<open>forEach\<close> visits them. The counter values of this program are integers (they
  start at 0 and move by 1), so they are modelled as \<open>int\<close>.
\<close>

record 'd YMap =
  ymap_get :: "'d \<Rightarrow> string \<Rightarrow> int option"
  ymap_set :: "'d \<Rightarrow> string \<Rightarrow> int \<Rightarrow> 'd"
  ymap_forEach :: "'d \<Rightarrow> (string \<times> int) list"


section \<open>The replica: \<^verbatim>\<open>CRDTPeer\<close>\<close>

text \<open>
  The callbacks subscribed to a document's \<^verbatim>\<open>'update'\<close> event are compared by
  reference. The two closures the engine creates in its constructor are
  \<open>HandleAUpdate\<close> and \<open>HandleBUpdate\<close>; \<open>OtherHandler n\<close> is any other callback.
  The document keeps its observers in a set (\<^verbatim>\<open>doc.on\<close> adds, \<^verbatim>\<open>doc.off\<close> deletes).
\<close>

datatype handler = HandleAUpdate | HandleBUpdate | OtherHandler nat

record 'd CRDTPeer =
  name :: string
  doc :: 'd
  observers :: "handler set"

definition onUpdate :: "'d CRDTPeer \<Rightarrow> handler \<Rightarrow> 'd CRDTPeer" where
  "onUpdate p cb = p\<lparr>observers := insert cb (observers p)\<rparr>"

definition offUpdate :: "'d CRDTPeer \<Rightarrow> handler \<Rightarrow> 'd CRDTPeer" where
  "offUpdate p cb = p\<lparr>observers := observers p - {cb}\<rparr>"

definition applyUpdate :: "('d, 'e) YDoc \<Rightarrow> 'd CRDTPeer \<Rightarrow> bytes \<Rightarrow> origin \<Rightarrow> 'd CRDTPeer" where
  "applyUpdate Y p update orig = p\<lparr>doc := y_applyUpdate Y (doc p) update orig\<rparr>"

definition getStateVector :: "('d, 'e) YDoc \<Rightarrow> 'd CRDTPeer \<Rightarrow> bytes" where
  "getStateVector Y p = y_encodeStateVector Y (doc p)"

definition encodeStateAsUpdate :: "('d, 'e) YDoc \<Rightarrow> 'd CRDTPeer \<Rightarrow> bytes \<Rightarrow> bytes" where
  "encodeStateAsUpdate Y p remoteStateVector = y_encodeStateAsUpdate Y (doc p) remoteStateVector"

text \<open>The operator \<^verbatim>\<open>??\<close>: the right operand when the left one is \<^verbatim>\<open>undefined\<close>.\<close>

definition nullish :: "'a option \<Rightarrow> 'a \<Rightarrow> 'a" where
  "nullish x dflt = (case x of None \<Rightarrow> dflt | Some v \<Rightarrow> v)"

definition incrementCounter :: "'d YMap \<Rightarrow> 'd CRDTPeer \<Rightarrow> 'd CRDTPeer" where
  "incrementCounter M p =
     (let current = nullish (ymap_get M (doc p) (name p)) 0
      in p\<lparr>doc := ymap_set M (doc p) (name p) (current + 1)\<rparr>)"

definition decrementCounter :: "'d YMap \<Rightarrow> 'd CRDTPeer \<Rightarrow> 'd CRDTPeer" where
  "decrementCounter M p =
     (let current = nullish (ymap_get M (doc p) (name p)) 0
      in p\<lparr>doc := ymap_set M (doc p) (name p) (current - 1)\<rparr>)"

definition getCounterTotal :: "'d YMap \<Rightarrow> 'd CRDTPeer \<Rightarrow> int" where
  "getCounterTotal M p = fold (\<lambda>(k, v) total. total + v) (ymap_forEach M (doc p)) 0"

text \<open>
  An instance of the map view for concrete evaluation: the document is the
  insertion-ordered list of entries itself, as in a JavaScript \<^verbatim>\<open>Map\<close>.
\<close>

definition EntryMap :: "(string \<times> int) list YMap" where
  "EntryMap = \<lparr>ymap_get = map_of, ymap_set = (\<lambda>d k v. AList.update k v d), ymap_forEach = (\<lambda>d. d)\<rparr>"


section \<open>The sync engine: \<^verbatim>\<open>SyncEngine\<close>\<close>

datatype event_type = Live | Queued | Reconnect

record SyncEvent =
  ev_from :: string
  ev_to :: string
  ev_bytes :: nat
  ev_timestamp :: nat
  ev_type :: event_type

text \<open>
  Sync-event observers are compared by reference (\<^verbatim>\<open>l !== cb\<close>); a callback is
  identified by a number. Calling an observer is recorded as a pair of the callback
  and the event it received. Observers are presentation code: they are taken not to
  throw and not to call back into the engine.
\<close>

type_synonym callback = nat
type_synonym delivery = "callback \<times> SyncEvent"

definition EMPTY_UPDATE_THRESHOLD :: nat where
  "EMPTY_UPDATE_THRESHOLD = 2"

text \<open>
  The engine object together with the two replica objects it refers to. The two
  replicas are distinct objects; \<open>peer_ref\<close> says which of them a reference is.
\<close>

record 'd SyncEngine =
  peerA :: "'d CRDTPeer"
  peerB :: "'d CRDTPeer"
  peerAOnline :: bool
  peerBOnline :: bool
  queueForB :: "bytes list"
  queueForA :: "bytes list"
  listeners :: "callback list"

datatype peer_ref = PeerA | PeerB

definition peer_of :: "'d SyncEngine \<Rightarrow> peer_ref \<Rightarrow> 'd CRDTPeer" where
  "peer_of st r = (case r of PeerA \<Rightarrow> peerA st | PeerB \<Rightarrow> peerB st)"

definition set_peer :: "peer_ref \<Rightarrow> 'd CRDTPeer \<Rightarrow> 'd SyncEngine \<Rightarrow> 'd SyncEngine" where
  "set_peer r p st = (case r of PeerA \<Rightarrow> st\<lparr>peerA := p\<rparr> | PeerB \<Rightarrow> st\<lparr>peerB := p\<rparr>)"

definition SyncEngine_new :: "'d CRDTPeer \<Rightarrow> 'd CRDTPeer \<Rightarrow> 'd SyncEngine" where
  "SyncEngine_new a b =
     \<lparr>peerA = onUpdate a HandleAUpdate, peerB = onUpdate b HandleBUpdate,
      peerAOnline = True, peerBOnline = True,
      queueForB = [], queueForA = [], listeners = []\<rparr>"

definition emit :: "'d SyncEngine \<Rightarrow> SyncEvent \<Rightarrow> delivery list" where
  "emit st event = map (\<lambda>cb. (cb, event)) (listeners st)"

text \<open>
  \<^verbatim>\<open>relay(update, from, to, online)\<close>; \<open>now\<close> is the value of \<^verbatim>\<open>Date.now()\<close>.
  \<^verbatim>\<open>Y.applyUpdate\<close> notifies the observers of the destination document with the
  origin it was given; the engine's own handler on that document is then called with
  \<^verbatim>\<open>'remote'\<close> and returns at its first line (see \<open>handleAUpdate\<close> and
  \<open>handleBUpdate\<close> below), so that nested call changes nothing.
\<close>

definition relay ::
  "('d, 'e) YDoc \<Rightarrow> nat \<Rightarrow> 'd SyncEngine \<Rightarrow> bytes \<Rightarrow> peer_ref \<Rightarrow> peer_ref \<Rightarrow> bool
     \<Rightarrow> 'd SyncEngine \<times> delivery list" where
  "relay Y now st update from_peer to_peer online =
     (if online then
        (set_peer to_peer (applyUpdate Y (peer_of st to_peer) update remote) st,
         emit st \<lparr>ev_from = name (peer_of st from_peer), ev_to = name (peer_of st to_peer),
                  ev_bytes = length update, ev_timestamp = now, ev_type = Live\<rparr>)
      else
        ((if to_peer = PeerA then st\<lparr>queueForA := queueForA st @ [update]\<rparr>
          else st\<lparr>queueForB := queueForB st @ [update]\<rparr>),
         emit st \<lparr>ev_from = name (peer_of st from_peer), ev_to = name (peer_of st to_peer),
                  ev_bytes = length update, ev_timestamp = now, ev_type = Queued\<rparr>))"

definition handleAUpdate ::
  "('d, 'e) YDoc \<Rightarrow> nat \<Rightarrow> 'd SyncEngine \<Rightarrow> bytes \<Rightarrow> origin \<Rightarrow> 'd SyncEngine \<times> delivery list" where
  "handleAUpdate Y now st update orig =
     (if orig = remote then (st, [])
      else relay Y now st update PeerA PeerB (peerAOnline st \<and> peerBOnline st))"

definition handleBUpdate ::
  "('d, 'e) YDoc \<Rightarrow> nat \<Rightarrow> 'd SyncEngine \<Rightarrow> bytes \<Rightarrow> origin \<Rightarrow> 'd SyncEngine \<times> delivery list" where
  "handleBUpdate Y now st update orig =
     (if orig = remote then (st, [])
      else relay Y now st update PeerB PeerA (peerAOnline st \<and> peerBOnline st))"

datatype error = UnknownPeer string

definition isPeerOnline :: "'d SyncEngine \<Rightarrow> string \<Rightarrow> error + bool" where
  "isPeerOnline st peerName =
     (if peerName = name (peerA st) then Inr (peerAOnline st)
      else if peerName = name (peerB st) then Inr (peerBOnline st)
      else Inl (UnknownPeer peerName))"

text \<open>
  \<^verbatim>\<open>reconcile()\<close>; \<open>nowA\<close> and \<open>nowB\<close> are the values of its two \<^verbatim>\<open>Date.now()\<close>
  calls. Both deltas are computed before either is applied.
\<close>

definition reconcile ::
  "('d, 'e) YDoc \<Rightarrow> nat \<Rightarrow> nat \<Rightarrow> 'd SyncEngine \<Rightarrow> 'd SyncEngine \<times> delivery list" where
  "reconcile Y nowA nowB st =
     (let svA = getStateVector Y (peerA st);
          svB = getStateVector Y (peerB st);
          updateForA = encodeStateAsUpdate Y (peerB st) svA;
          updateForB = encodeStateAsUpdate Y (peerA st) svB;
          (st1, out1) =
            (if length updateForA > EMPTY_UPDATE_THRESHOLD then
               (st\<lparr>peerA := applyUpdate Y (peerA st) updateForA remote\<rparr>,
                emit st \<lparr>ev_from = name (peerB st), ev_to = name (peerA st),
                         ev_bytes = length updateForA, ev_timestamp = nowA,
                         ev_type = Reconnect\<rparr>)
             else (st, []));
          (st2, out2) =
            (if length updateForB > EMPTY_UPDATE_THRESHOLD then
               (st1\<lparr>peerB := applyUpdate Y (peerB st1) updateForB remote\<rparr>,
                emit st1 \<lparr>ev_from = name (peerA st1), ev_to = name (peerB st1),
                          ev_bytes = length updateForB, ev_timestamp = nowB,
                          ev_type = Reconnect\<rparr>)
             else (st1, []))
      in (st2\<lparr>queueForA := [], queueForB := []\<rparr>, out1 @ out2))"

definition setOnline ::
  "('d, 'e) YDoc \<Rightarrow> nat \<Rightarrow> nat \<Rightarrow> 'd SyncEngine \<Rightarrow> string \<Rightarrow> bool
     \<Rightarrow> error + ('d SyncEngine \<times> delivery list)" where
  "setOnline Y nowA nowB st peerName online =
     (case (if peerName = name (peerA st) then Inr (st\<lparr>peerAOnline := online\<rparr>)
            else if peerName = name (peerB st) then Inr (st\<lparr>peerBOnline := online\<rparr>)
            else Inl (UnknownPeer peerName))
      of Inl e \<Rightarrow> Inl e
       | Inr st1 \<Rightarrow>
           if online \<and> peerAOnline st1 \<and> peerBOnline st1
           then Inr (reconcile Y nowA nowB st1)
           else Inr (st1, []))"

definition onSyncEvent :: "'d SyncEngine \<Rightarrow> callback \<Rightarrow> 'd SyncEngine" where
  "onSyncEvent st cb = st\<lparr>listeners := listeners st @ [cb]\<rparr>"

definition offSyncEvent :: "'d SyncEngine \<Rightarrow> callback \<Rightarrow> 'd SyncEngine" where
  "offSyncEvent st cb = st\<lparr>listeners := filter (\<lambda>l. l \<noteq> cb) (listeners st)\<rparr>"

definition destroy :: "'d SyncEngine \<Rightarrow> 'd SyncEngine" where
  "destroy st =
     st\<lparr>peerA := offUpdate (peerA st) HandleAUpdate,
        peerB := offUpdate (peerB st) HandleBUpdate,
        listeners := []\<rparr>"


section \<open>Runs of the engine\<close>

text \<open>
  What the surrounding program can do to an engine and its two replicas:
  \<^item> \<open>LocalEdit r e orig now\<close>: mutate the document of replica \<open>r\<close> by the edit \<open>e\<close>
    under the transaction origin \<open>orig\<close>. The document notifies its \<^verbatim>\<open>'update'\<close>
    observers; when the engine's handler is among them it runs (reading \<open>now\<close> from
    the clock). Other observers do not touch the engine.
  \<^item> \<open>SetOnline\<close>, \<open>OnSyncEvent\<close>, \<open>OffSyncEvent\<close>, \<open>Destroy\<close>: the public
    methods. A \<open>SetOnline\<close> that throws leaves the engine as it was: the
    \<^verbatim>\<open>throw\<close> comes before any assignment.
\<close>

datatype 'e action =
    LocalEdit peer_ref 'e origin nat
  | SetOnline string bool nat nat
  | OnSyncEvent callback
  | OffSyncEvent callback
  | Destroy

definition local_edit ::
  "('d, 'e) YDoc \<Rightarrow> nat \<Rightarrow> 'd SyncEngine \<Rightarrow> peer_ref \<Rightarrow> 'e \<Rightarrow> origin
     \<Rightarrow> 'd SyncEngine \<times> delivery list" where
  "local_edit Y now st r e orig =
     (let (d', update) = y_transact Y e orig (doc (peer_of st r));
          st1 = set_peer r ((peer_of st r)\<lparr>doc := d'\<rparr>) st
      in case r of
           PeerA \<Rightarrow> if HandleAUpdate \<in> observers (peerA st1)
                    then handleAUpdate Y now st1 update orig else (st1, [])
         | PeerB \<Rightarrow> if HandleBUpdate \<in> observers (peerB st1)
                    then handleBUpdate Y now st1 update orig else (st1, []))"

fun step :: "('d, 'e) YDoc \<Rightarrow> 'd SyncEngine \<Rightarrow> 'e action \<Rightarrow> 'd SyncEngine \<times> delivery list" where
  "step Y st (LocalEdit r e orig now) = local_edit Y now st r e orig"
| "step Y st (SetOnline peerName online nowA nowB) =
     (case setOnline Y nowA nowB st peerName online of
        Inl err \<Rightarrow> (st, [])
      | Inr res \<Rightarrow> res)"
| "step Y st (OnSyncEvent cb) = (onSyncEvent st cb, [])"
| "step Y st (OffSyncEvent cb) = (offSyncEvent st cb, [])"
| "step Y st Destroy = (destroy st, [])"

fun run :: "('d, 'e) YDoc \<Rightarrow> 'e action list \<Rightarrow> 'd SyncEngine \<Rightarrow> 'd SyncEngine \<times> delivery list" where
  "run Y [] st = (st, [])"
| "run Y (a # as) st =
     (let (st1, out1) = step Y st a;
          (st2, out2) = run Y as st1
      in (st2, out1 @ out2))"


section \<open>A small document engine for concrete evaluation\<close>

text \<open>
  An instance of the document interface on which the model can be run: a document
  is the list of the one-byte operations it has seen, its state vector is that list,
  an edit is one operation, and a delta is a two-byte header followed by the
  operations it carries. A delta without operations is two bytes long.
\<close>

definition OpLog :: "(bytes, 8 word) YDoc" where
  "OpLog =
     \<lparr>y_applyUpdate = (\<lambda>d u orig. d @ filter (\<lambda>x. x \<notin> set d) (remdups (drop 2 u))),
      y_encodeStateVector = (\<lambda>d. d),
      y_encodeStateAsUpdate = (\<lambda>d sv. [0, 0] @ filter (\<lambda>x. x \<notin> set sv) d),
      y_transact = (\<lambda>e orig d. (if e \<in> set d then d else d @ [e], [0, 0, e]))\<rparr>"

definition peer_with :: "string \<Rightarrow> 'd \<Rightarrow> 'd CRDTPeer" where
  "peer_with n d = \<lparr>name = n, doc = d, observers = {}\<rparr>"


definition fresh_pair :: "bytes SyncEngine" where
  "fresh_pair = SyncEngine_new (peer_with ''A'' []) (peer_with ''B'' [])"

text \<open>
  An engine constructed over two replicas of which the first already holds one
  operation, with one registered sync-event observer. The constructor does not
  reconcile, so both slots are online while the documents differ.
\<close>

definition unsynced_pair :: "bytes SyncEngine" where
  "unsynced_pair = onSyncEvent (SyncEngine_new (peer_with ''A'' [1]) (peer_with ''B'' [])) 7"


text \<open>
  An engine constructed over two replicas of which the second already holds one
  operation that the first has not seen. Both slots are online.
\<close>

definition behind_pair :: "bytes SyncEngine" where
  "behind_pair = SyncEngine_new (peer_with ''A'' []) (peer_with ''B'' [1])"


section \<open>Sequences of local edits and the contract of the document engine\<close>

text \<open>A local edit with its transaction origin and the clock value at its notification.\<close>

type_synonym 'e timed_edit = "'e \<times> origin \<times> nat"

definition edits_on :: "peer_ref \<Rightarrow> 'e timed_edit list \<Rightarrow> 'e action list" where
  "edits_on r es = map (\<lambda>(e, orig, now). LocalEdit r e orig now) es"

fun transact_all :: "('d, 'e) YDoc \<Rightarrow> 'e timed_edit list \<Rightarrow> 'd \<Rightarrow> 'd" where
  "transact_all Y [] d = d"
| "transact_all Y ((e, orig, now) # es) d = transact_all Y es (fst (y_transact Y e orig d))"

text \<open>
  Modelled from the spec: the document engine is the Yjs library, which is not part
  of this repository. This is the contract sections 4.1 and 6 of the specification
  give it, over a history \<open>h d\<close> of the operations a document has seen and the
  operations \<open>ops u\<close> a delta carries:
  \<^item> applying a delta merges its operations into the history (an idempotent and
    commutative merge);
  \<^item> the delta computed against a state vector carries exactly the operations the
    encoding document has and the owner of the state vector has not;
  \<^item> a local mutation reports a delta describing exactly the change it made;
  \<^item> a delta no longer than the header of an empty encoding carries no operation;
  \<^item> the content of a document is determined by its history.
\<close>

definition sync_contract ::
  "('d, 'e) YDoc \<Rightarrow> ('d \<Rightarrow> 'op set) \<Rightarrow> (bytes \<Rightarrow> 'op set) \<Rightarrow> ('d \<Rightarrow> 'c) \<Rightarrow> bool" where
  "sync_contract Y h ops content \<longleftrightarrow>
     (\<forall>d u orig. h (y_applyUpdate Y d u orig) = h d \<union> ops u) \<and>
     (\<forall>d d'. ops (y_encodeStateAsUpdate Y d (y_encodeStateVector Y d')) = h d - h d') \<and>
     (\<forall>e orig d. h (fst (y_transact Y e orig d)) = h d \<union> ops (snd (y_transact Y e orig d))) \<and>
     (\<forall>u. length u \<le> EMPTY_UPDATE_THRESHOLD \<longrightarrow> ops u = {}) \<and>
     (\<forall>d d'. h d = h d' \<longrightarrow> content d = content d')"


text \<open>The queues hold something only while the link is not fully online.\<close>

definition queues_ok :: "'d SyncEngine \<Rightarrow> bool" where
  "queues_ok st \<longleftrightarrow>
     (peerAOnline st \<and> peerBOnline st \<longrightarrow> queueForA st = [] \<and> queueForB st = [])"

text \<open>
  Regular use of an engine: local edits are made under an origin other than the
  \<^verbatim>\<open>'remote'\<close> sentinel and the engine is not torn down. \<open>in_sync\<close> says that the
  engine is subscribed to both replicas and that, while both slots are online, the
  two documents have seen the same operations.
\<close>

fun regular :: "'e action \<Rightarrow> bool" where
  "regular (LocalEdit r e orig now) = (orig \<noteq> remote)"
| "regular Destroy = False"
| "regular a = True"

definition in_sync :: "('d \<Rightarrow> 'op set) \<Rightarrow> 'd SyncEngine \<Rightarrow> bool" where
  "in_sync h st \<longleftrightarrow>
     HandleAUpdate \<in> observers (peerA st) \<and> HandleBUpdate \<in> observers (peerB st) \<and>
     (peerAOnline st \<and> peerBOnline st \<longrightarrow> h (doc (peerA st)) = h (doc (peerB st)))"


section \<open>The replica's counters\<close>

lemma fold_total:
  "fold (\<lambda>(k, v) total. total + v) es (acc::int) = acc + sum_list (map snd es)"
  by (induction es arbitrary: acc) auto

text \<open>
  Claim C8. For every replica state, \<^verbatim>\<open>getCounterTotal()\<close> returns the sum of all
  values present in the counters mapping, and it returns 0 when the mapping is
  empty.
\<close>

theorem getCounterTotal_is_sum:
  "getCounterTotal M p = sum_list (map snd (ymap_forEach M (doc p))) \<and>
   (ymap_forEach M (doc p) = [] \<longrightarrow> getCounterTotal M p = 0)"
  by (simp add: getCounterTotal_def fold_total)

theorem getCounterTotal_is_sum_witness:
  "ymap_forEach EntryMap (doc (peer_with ''A'' [])) = [] \<and>
   getCounterTotal EntryMap (peer_with ''A'' []) = 0 \<and>
   getCounterTotal EntryMap (peer_with ''A'' [(''A'', 2), (''B'', 3)]) = 5"
  using getCounterTotal_is_sum [of EntryMap "peer_with ''A'' []"]
        getCounterTotal_is_sum [of EntryMap "peer_with ''A'' [(''A'', 2), (''B'', 3)]"]
  by (simp add: EntryMap_def peer_with_def)

text \<open>
  Claim C9. Reading a counter key that was never set yields the default 0 and no
  error: on a replica whose own key was never set, \<^verbatim>\<open>incrementCounter\<close> stores 1
  and \<^verbatim>\<open>decrementCounter\<close> stores -1 under the replica's name. Both functions
  are total: they have no error result.
\<close>

theorem counter_defaults_to_zero:
  "ymap_get M (doc p) (name p) = None \<Longrightarrow>
     nullish (ymap_get M (doc p) (name p)) 0 = (0::int) \<and>
     incrementCounter M p = p\<lparr>doc := ymap_set M (doc p) (name p) 1\<rparr> \<and>
     decrementCounter M p = p\<lparr>doc := ymap_set M (doc p) (name p) (- 1)\<rparr>"
  by (simp add: nullish_def incrementCounter_def decrementCounter_def)

theorem counter_defaults_to_zero_witness:
  "ymap_get EntryMap (doc (peer_with ''A'' [])) (name (peer_with ''A'' [])) = None \<and>
   doc (decrementCounter EntryMap (peer_with ''A'' [])) = [(''A'', - 1)] \<and>
   doc (incrementCounter EntryMap (peer_with ''A'' [])) = [(''A'', 1)] \<and>
   ymap_get EntryMap (doc (decrementCounter EntryMap (peer_with ''A'' []))) ''A'' = Some (- 1)"
  using counter_defaults_to_zero [of EntryMap "peer_with ''A'' []"]
  by (simp add: EntryMap_def peer_with_def)


section \<open>Relaying a local change\<close>

text \<open>
  Claim C1. A notification whose origin is the \<^verbatim>\<open>'remote'\<close> sentinel changes
  nothing and calls no observer. For any other origin: when both slots are online
  the delta is applied to the other replica with the origin \<^verbatim>\<open>'remote'\<close> and every
  registered observer receives one \<^verbatim>\<open>live\<close> event; otherwise the delta is appended
  to the queue of the destination, the destination replica is left as it was, and
  every registered observer receives one \<^verbatim>\<open>queued\<close> event.
\<close>

theorem relay_on_local_change:
  "(orig = remote \<longrightarrow>
      handleAUpdate Y now st update orig = (st, []) \<and>
      handleBUpdate Y now st update orig = (st, [])) \<and>
   (orig \<noteq> remote \<and> peerAOnline st \<and> peerBOnline st \<longrightarrow>
      handleAUpdate Y now st update orig =
        (st\<lparr>peerB := applyUpdate Y (peerB st) update remote\<rparr>,
         map (\<lambda>cb. (cb, \<lparr>ev_from = name (peerA st), ev_to = name (peerB st),
                          ev_bytes = length update, ev_timestamp = now, ev_type = Live\<rparr>))
             (listeners st)) \<and>
      handleBUpdate Y now st update orig =
        (st\<lparr>peerA := applyUpdate Y (peerA st) update remote\<rparr>,
         map (\<lambda>cb. (cb, \<lparr>ev_from = name (peerB st), ev_to = name (peerA st),
                          ev_bytes = length update, ev_timestamp = now, ev_type = Live\<rparr>))
             (listeners st))) \<and>
   (orig \<noteq> remote \<and> \<not> (peerAOnline st \<and> peerBOnline st) \<longrightarrow>
      handleAUpdate Y now st update orig =
        (st\<lparr>queueForB := queueForB st @ [update]\<rparr>,
         map (\<lambda>cb. (cb, \<lparr>ev_from = name (peerA st), ev_to = name (peerB st),
                          ev_bytes = length update, ev_timestamp = now, ev_type = Queued\<rparr>))
             (listeners st)) \<and>
      handleBUpdate Y now st update orig =
        (st\<lparr>queueForA := queueForA st @ [update]\<rparr>,
         map (\<lambda>cb. (cb, \<lparr>ev_from = name (peerB st), ev_to = name (peerA st),
                          ev_bytes = length update, ev_timestamp = now, ev_type = Queued\<rparr>))
             (listeners st)))"
  by (simp add: handleAUpdate_def handleBUpdate_def relay_def peer_of_def set_peer_def emit_def)

lemmas scenario_defs =
  fresh_pair_def unsynced_pair_def behind_pair_def SyncEngine_new_def peer_with_def onUpdate_def
  onSyncEvent_def OpLog_def remote_def applyUpdate_def

theorem relay_on_local_change_witness:
  "OriginOther \<noteq> remote \<and> peerAOnline unsynced_pair \<and> peerBOnline unsynced_pair \<and>
   doc (peerB (fst (handleAUpdate OpLog 9 unsynced_pair [0, 0, 5] OriginOther))) = [5] \<and>
   snd (handleAUpdate OpLog 9 unsynced_pair [0, 0, 5] OriginOther) =
     [(7, \<lparr>ev_from = ''A'', ev_to = ''B'', ev_bytes = 3, ev_timestamp = 9, ev_type = Live\<rparr>)] \<and>
   handleAUpdate OpLog 9 unsynced_pair [0, 0, 5] remote = (unsynced_pair, []) \<and>
   \<not> (peerAOnline (unsynced_pair\<lparr>peerAOnline := False\<rparr>) \<and>
      peerBOnline (unsynced_pair\<lparr>peerAOnline := False\<rparr>)) \<and>
   queueForA (fst (handleBUpdate OpLog 9 (unsynced_pair\<lparr>peerAOnline := False\<rparr>) [0, 0, 5] OriginOther))
     = [[0, 0, 5]] \<and>
   doc (peerA (fst (handleBUpdate OpLog 9 (unsynced_pair\<lparr>peerAOnline := False\<rparr>) [0, 0, 5] OriginOther)))
     = [1] \<and>
   snd (handleBUpdate OpLog 9 (unsynced_pair\<lparr>peerAOnline := False\<rparr>) [0, 0, 5] OriginOther) =
     [(7, \<lparr>ev_from = ''B'', ev_to = ''A'', ev_bytes = 3, ev_timestamp = 9, ev_type = Queued\<rparr>)]"
  using relay_on_local_change [of OriginOther OpLog 9 unsynced_pair "[0, 0, 5]"]
        relay_on_local_change [of remote OpLog 9 unsynced_pair "[0, 0, 5]"]
        relay_on_local_change [of OriginOther OpLog 9 "unsynced_pair\<lparr>peerAOnline := False\<rparr>" "[0, 0, 5]"]
  by (simp add: scenario_defs)


lemmas run_defs =
  setOnline_def reconcile_def local_edit_def handleAUpdate_def handleBUpdate_def relay_def
  peer_of_def set_peer_def emit_def getStateVector_def encodeStateAsUpdate_def
  EMPTY_UPDATE_THRESHOLD_def destroy_def offUpdate_def offSyncEvent_def isPeerOnline_def Let_def


section \<open>Going online and reconciling\<close>

text \<open>
  Claim C2, as amended. A \<^verbatim>\<open>setOnline\<close> call on a managed peer runs the
  reconciliation exactly when it sets the slot to Online and the other slot is
  Online, whether or not the slot was Online before the call; every other call only
  sets the flag. So a flip Offline to Online while the other slot is Online
  reconciles, a flip Offline to Online while the other slot is Offline only sets the
  flag, a call that sets a slot to Offline only sets the flag, and a call that sets
  an Online slot to Online while the other slot is Online reconciles again.
\<close>

theorem setOnline_reconciles_when_fully_online:
  "(peerName = name (peerA st) \<longrightarrow>
      setOnline Y nowA nowB st peerName online =
        Inr (if online \<and> peerBOnline st
             then reconcile Y nowA nowB (st\<lparr>peerAOnline := True\<rparr>)
             else (st\<lparr>peerAOnline := online\<rparr>, []))) \<and>
   (peerName \<noteq> name (peerA st) \<and> peerName = name (peerB st) \<longrightarrow>
      setOnline Y nowA nowB st peerName online =
        Inr (if online \<and> peerAOnline st
             then reconcile Y nowA nowB (st\<lparr>peerBOnline := True\<rparr>)
             else (st\<lparr>peerBOnline := online\<rparr>, [])))"
  by (auto simp: setOnline_def)

theorem setOnline_reconciles_when_fully_online_witness:
  "''A'' = name (peerA (unsynced_pair\<lparr>peerAOnline := False\<rparr>)) \<and>
   setOnline OpLog 3 4 (unsynced_pair\<lparr>peerAOnline := False\<rparr>) ''A'' True =
     Inr (reconcile OpLog 3 4 unsynced_pair) \<and>
   setOnline OpLog 3 4 (unsynced_pair\<lparr>peerAOnline := False, peerBOnline := False\<rparr>) ''A'' True =
     Inr (unsynced_pair\<lparr>peerBOnline := False\<rparr>, []) \<and>
   ''B'' \<noteq> name (peerA unsynced_pair) \<and> ''B'' = name (peerB unsynced_pair) \<and>
   setOnline OpLog 3 4 unsynced_pair ''B'' False = Inr (unsynced_pair\<lparr>peerBOnline := False\<rparr>, [])"
  using setOnline_reconciles_when_fully_online
          [of "''A''" "unsynced_pair\<lparr>peerAOnline := False\<rparr>" OpLog 3 4 True]
        setOnline_reconciles_when_fully_online
          [of "''A''" "unsynced_pair\<lparr>peerAOnline := False, peerBOnline := False\<rparr>" OpLog 3 4 True]
        setOnline_reconciles_when_fully_online
          [of "''B''" unsynced_pair OpLog 3 4 False]
  by (simp add: scenario_defs)

text \<open>
  The claim as written fails: on an engine whose two slots are already Online,
  \<^verbatim>\<open>setOnline('A', true)\<close> runs the reconciliation; here it applies a delta to
  replica B and reports a \<^verbatim>\<open>reconnect\<close> event.
\<close>

theorem setOnline_already_online_counterexample:
  "peerAOnline unsynced_pair \<and> peerBOnline unsynced_pair \<and>
   setOnline OpLog 3 4 unsynced_pair ''A'' True = Inr (reconcile OpLog 3 4 unsynced_pair) \<and>
   doc (peerB unsynced_pair) = [] \<and>
   doc (peerB (fst (reconcile OpLog 3 4 unsynced_pair))) = [1] \<and>
   snd (reconcile OpLog 3 4 unsynced_pair) =
     [(7, \<lparr>ev_from = ''A'', ev_to = ''B'', ev_bytes = 3, ev_timestamp = 4, ev_type = Reconnect\<rparr>)]"
  by (simp add: scenario_defs run_defs)

text \<open>
  Claim C3. In a reconciliation, for each direction on its own: the delta computed
  from the destination's state vector is applied to the destination with the origin
  \<^verbatim>\<open>'remote'\<close>, and a \<^verbatim>\<open>reconnect\<close> event carrying its byte size is reported,
  exactly when its byte length exceeds \<open>EMPTY_UPDATE_THRESHOLD\<close>; otherwise the
  destination is left as it was and no event is reported for that direction. Both
  queues are emptied in every case.
\<close>

theorem reconcile_applies_nontrivial_deltas:
  "reconcile Y nowA nowB st =
     (let updateForA = y_encodeStateAsUpdate Y (doc (peerB st)) (y_encodeStateVector Y (doc (peerA st)));
          updateForB = y_encodeStateAsUpdate Y (doc (peerA st)) (y_encodeStateVector Y (doc (peerB st)))
      in (st\<lparr>peerA := (if length updateForA > EMPTY_UPDATE_THRESHOLD
                        then applyUpdate Y (peerA st) updateForA remote else peerA st),
             peerB := (if length updateForB > EMPTY_UPDATE_THRESHOLD
                        then applyUpdate Y (peerB st) updateForB remote else peerB st),
             queueForA := [], queueForB := []\<rparr>,
          (if length updateForA > EMPTY_UPDATE_THRESHOLD
           then map (\<lambda>cb. (cb, \<lparr>ev_from = name (peerB st), ev_to = name (peerA st),
                     ev_bytes = length updateForA, ev_timestamp = nowA, ev_type = Reconnect\<rparr>))
                  (listeners st)
           else []) @
          (if length updateForB > EMPTY_UPDATE_THRESHOLD
           then map (\<lambda>cb. (cb, \<lparr>ev_from = name (peerA st), ev_to = name (peerB st),
                     ev_bytes = length updateForB, ev_timestamp = nowB, ev_type = Reconnect\<rparr>))
                  (listeners st)
           else [])))"
  by (simp add: reconcile_def Let_def getStateVector_def encodeStateAsUpdate_def emit_def
      applyUpdate_def)

theorem reconcile_applies_nontrivial_deltas_witness:
  "y_encodeStateAsUpdate OpLog (doc (peerB unsynced_pair))
     (y_encodeStateVector OpLog (doc (peerA unsynced_pair))) = [0, 0] \<and>
   y_encodeStateAsUpdate OpLog (doc (peerA unsynced_pair))
     (y_encodeStateVector OpLog (doc (peerB unsynced_pair))) = [0, 0, 1] \<and>
   doc (peerA (fst (reconcile OpLog 3 4 unsynced_pair))) = [1] \<and>
   doc (peerB (fst (reconcile OpLog 3 4 unsynced_pair))) = [1] \<and>
   snd (reconcile OpLog 3 4 unsynced_pair) =
     [(7, \<lparr>ev_from = ''A'', ev_to = ''B'', ev_bytes = 3, ev_timestamp = 4, ev_type = Reconnect\<rparr>)]"
  using reconcile_applies_nontrivial_deltas [of OpLog 3 4 unsynced_pair]
  by (simp add: scenario_defs EMPTY_UPDATE_THRESHOLD_def Let_def)


section \<open>Unknown peers\<close>

text \<open>
  Claim C6. \<^verbatim>\<open>setOnline\<close> and \<^verbatim>\<open>isPeerOnline\<close> raise the unknown-peer error when
  the given name is the name of neither managed replica, and only then: with the
  name of peer A or of peer B both calls return normally.
\<close>

theorem unknown_peer_error:
  "(peerName \<noteq> name (peerA st) \<and> peerName \<noteq> name (peerB st) \<longrightarrow>
      isPeerOnline st peerName = Inl (UnknownPeer peerName) \<and>
      setOnline Y nowA nowB st peerName online = Inl (UnknownPeer peerName)) \<and>
   (peerName = name (peerA st) \<or> peerName = name (peerB st) \<longrightarrow>
      (\<exists>b. isPeerOnline st peerName = Inr b) \<and>
      (\<exists>res. setOnline Y nowA nowB st peerName online = Inr res))"
  by (auto simp: isPeerOnline_def setOnline_def)

theorem unknown_peer_error_witness:
  "''C'' \<noteq> name (peerA fresh_pair) \<and> ''C'' \<noteq> name (peerB fresh_pair) \<and>
   isPeerOnline fresh_pair ''C'' = Inl (UnknownPeer ''C'') \<and>
   setOnline OpLog 0 0 fresh_pair ''C'' False = Inl (UnknownPeer ''C'') \<and>
   ''B'' = name (peerB fresh_pair) \<and>
   isPeerOnline fresh_pair ''B'' = Inr True \<and>
   setOnline OpLog 0 0 fresh_pair ''B'' False = Inr (fresh_pair\<lparr>peerBOnline := False\<rparr>, [])"
  using unknown_peer_error [of "''C''" fresh_pair OpLog 0 0 False]
        unknown_peer_error [of "''B''" fresh_pair OpLog 0 0 False]
  by (simp add: scenario_defs run_defs)


section \<open>Sync-event observers\<close>

lemma count_list_filter_neq:
  "count_list (filter (\<lambda>l. l \<noteq> cb) xs) c = (if c = cb then 0 else count_list xs c)"
  by (induction xs) auto

lemma filter_neq_absent: "cb \<notin> set xs \<Longrightarrow> filter (\<lambda>l. l \<noteq> cb) xs = xs"
  by (induction xs) auto

text \<open>
  Claim C10. \<^verbatim>\<open>offSyncEvent\<close> removes every registration of the given callback:
  however often it was registered, afterwards it is registered zero times and no
  emit calls it, while the registrations of the other callbacks stay as they were;
  with a callback that was never registered the engine is unchanged. The function
  is total: it has no error result.
\<close>

theorem offSyncEvent_removes_all:
  "listeners (offSyncEvent st cb) = filter (\<lambda>l. l \<noteq> cb) (listeners st) \<and>
   count_list (listeners (offSyncEvent st cb)) cb = 0 \<and>
   (\<forall>c. c \<noteq> cb \<longrightarrow> count_list (listeners (offSyncEvent st cb)) c = count_list (listeners st) c) \<and>
   (\<forall>event. \<forall>d \<in> set (emit (offSyncEvent st cb) event). fst d \<noteq> cb) \<and>
   (cb \<notin> set (listeners st) \<longrightarrow> offSyncEvent st cb = st)"
  by (auto simp: offSyncEvent_def emit_def count_list_filter_neq filter_neq_absent)

theorem offSyncEvent_removes_all_witness:
  "count_list (listeners (fresh_pair\<lparr>listeners := [7, 8, 7]\<rparr>)) 7 = 2 \<and>
   listeners (offSyncEvent (fresh_pair\<lparr>listeners := [7, 8, 7]\<rparr>) 7) = [8] \<and>
   emit (offSyncEvent (fresh_pair\<lparr>listeners := [7, 8, 7]\<rparr>) 7)
        \<lparr>ev_from = ''A'', ev_to = ''B'', ev_bytes = 3, ev_timestamp = 1, ev_type = Live\<rparr> =
     [(8, \<lparr>ev_from = ''A'', ev_to = ''B'', ev_bytes = 3, ev_timestamp = 1, ev_type = Live\<rparr>)] \<and>
   9 \<notin> set (listeners (fresh_pair\<lparr>listeners := [7, 8, 7]\<rparr>)) \<and>
   offSyncEvent (fresh_pair\<lparr>listeners := [7, 8, 7]\<rparr>) 9 = fresh_pair\<lparr>listeners := [7, 8, 7]\<rparr>"
  using offSyncEvent_removes_all [of "fresh_pair\<lparr>listeners := [7, 8, 7]\<rparr>" 7]
        offSyncEvent_removes_all [of "fresh_pair\<lparr>listeners := [7, 8, 7]\<rparr>" 9]
  by (simp add: scenario_defs run_defs)


section \<open>Facts about single steps\<close>

lemma reconcile_fields:
  "queueForA (fst (reconcile Y nowA nowB st)) = []"
  "queueForB (fst (reconcile Y nowA nowB st)) = []"
  "peerAOnline (fst (reconcile Y nowA nowB st)) = peerAOnline st"
  "peerBOnline (fst (reconcile Y nowA nowB st)) = peerBOnline st"
  "listeners (fst (reconcile Y nowA nowB st)) = listeners st"
  by (simp_all add: reconcile_def Let_def split: prod.splits if_splits)

lemma reconcile_out: "(cb, ev) \<in> set (snd (reconcile Y nowA nowB st)) \<Longrightarrow> cb \<in> set (listeners st)"
  by (auto simp: reconcile_def Let_def emit_def split: prod.splits if_splits)

lemma handle_fields:
  "peerAOnline (fst (handleAUpdate Y now st u orig)) = peerAOnline st"
  "peerBOnline (fst (handleAUpdate Y now st u orig)) = peerBOnline st"
  "listeners (fst (handleAUpdate Y now st u orig)) = listeners st"
  "peerAOnline (fst (handleBUpdate Y now st u orig)) = peerAOnline st"
  "peerBOnline (fst (handleBUpdate Y now st u orig)) = peerBOnline st"
  "listeners (fst (handleBUpdate Y now st u orig)) = listeners st"
  by (simp_all add: handleAUpdate_def handleBUpdate_def relay_def set_peer_def)

lemma handle_queues_online:
  "peerAOnline st \<and> peerBOnline st \<Longrightarrow>
     queueForA (fst (handleAUpdate Y now st u orig)) = queueForA st \<and>
     queueForB (fst (handleAUpdate Y now st u orig)) = queueForB st \<and>
     queueForA (fst (handleBUpdate Y now st u orig)) = queueForA st \<and>
     queueForB (fst (handleBUpdate Y now st u orig)) = queueForB st"
  by (simp add: handleAUpdate_def handleBUpdate_def relay_def set_peer_def)

lemma handle_out:
  "(cb, ev) \<in> set (snd (handleAUpdate Y now st u orig)) \<Longrightarrow> cb \<in> set (listeners st)"
  "(cb, ev) \<in> set (snd (handleBUpdate Y now st u orig)) \<Longrightarrow> cb \<in> set (listeners st)"
  by (auto simp: handleAUpdate_def handleBUpdate_def relay_def emit_def split: if_splits)

lemma set_peer_fields:
  "peerAOnline (set_peer r p st) = peerAOnline st"
  "peerBOnline (set_peer r p st) = peerBOnline st"
  "queueForA (set_peer r p st) = queueForA st"
  "queueForB (set_peer r p st) = queueForB st"
  "listeners (set_peer r p st) = listeners st"
  by (cases r; simp add: set_peer_def)+

lemma local_edit_fields:
  "peerAOnline (fst (local_edit Y now st r e orig)) = peerAOnline st"
  "peerBOnline (fst (local_edit Y now st r e orig)) = peerBOnline st"
  "listeners (fst (local_edit Y now st r e orig)) = listeners st"
  by (cases r; simp add: local_edit_def Let_def handle_fields set_peer_fields split: prod.splits)+

lemma local_edit_queues_online:
  "peerAOnline st \<and> peerBOnline st \<Longrightarrow>
     queueForA (fst (local_edit Y now st r e orig)) = queueForA st \<and>
     queueForB (fst (local_edit Y now st r e orig)) = queueForB st"
  by (cases r; simp add: local_edit_def Let_def handle_queues_online set_peer_fields split: prod.splits)

lemma local_edit_out:
  "(cb, ev) \<in> set (snd (local_edit Y now st r e orig)) \<Longrightarrow> cb \<in> set (listeners st)"
  by (cases r; auto simp: local_edit_def Let_def set_peer_fields split: prod.splits if_splits
        dest!: handle_out)


section \<open>The queues\<close>

lemma step_queues_ok: "queues_ok st \<Longrightarrow> queues_ok (fst (step Y st a))"
proof (cases a)
  case (LocalEdit r e orig now)
  assume "queues_ok st"
  then show ?thesis
    using LocalEdit local_edit_queues_online [of st Y now r e orig]
    by (auto simp: queues_ok_def local_edit_fields)
next
  case (SetOnline peerName online nowA nowB)
  assume "queues_ok st"
  then show ?thesis
    using SetOnline
    by (auto simp: queues_ok_def setOnline_def reconcile_fields)
qed (auto simp: queues_ok_def onSyncEvent_def offSyncEvent_def destroy_def)

lemma run_queues_ok: "queues_ok st \<Longrightarrow> queues_ok (fst (run Y acts st))"
proof (induction acts arbitrary: st)
  case Nil
  then show ?case by simp
next
  case (Cons a acts)
  from Cons.prems have "queues_ok (fst (step Y st a))" by (rule step_queues_ok)
  then have "queues_ok (fst (run Y acts (fst (step Y st a))))" by (rule Cons.IH)
  then show ?case by (simp add: split_beta Let_def)
qed

text \<open>
  Claim C4, as amended. In every state an engine reaches from its construction, a
  queue holds something only while at least one of the two slots is offline:
  whenever both slots are online both queues are empty. A local change made while
  both slots are online is appended to neither queue.
\<close>

theorem queues_empty_when_fully_online:
  "(let st = fst (run Y acts (SyncEngine_new a b))
    in peerAOnline st \<and> peerBOnline st \<longrightarrow> queueForA st = [] \<and> queueForB st = []) \<and>
   (peerAOnline s \<and> peerBOnline s \<longrightarrow>
      queueForA (fst (local_edit Y now s r e orig)) = queueForA s \<and>
      queueForB (fst (local_edit Y now s r e orig)) = queueForB s)"
proof -
  have "queues_ok (SyncEngine_new a b)" by (simp add: queues_ok_def SyncEngine_new_def)
  then have "queues_ok (fst (run Y acts (SyncEngine_new a b)))" by (rule run_queues_ok)
  then show ?thesis
    using local_edit_queues_online [of s Y now r e orig]
    by (simp add: queues_ok_def Let_def)
qed

theorem queues_empty_when_fully_online_witness:
  "queueForA (fst (run OpLog [SetOnline ''A'' False 0 0, LocalEdit PeerB 1 OriginOther 5]
                     (SyncEngine_new (peer_with ''A'' []) (peer_with ''B'' [])))) = [[0, 0, 1]] \<and>
   peerAOnline (fst (run OpLog [SetOnline ''A'' False 0 0, LocalEdit PeerB 1 OriginOther 5,
                                SetOnline ''A'' True 6 7]
                     (SyncEngine_new (peer_with ''A'' []) (peer_with ''B'' [])))) \<and>
   peerBOnline (fst (run OpLog [SetOnline ''A'' False 0 0, LocalEdit PeerB 1 OriginOther 5,
                                SetOnline ''A'' True 6 7]
                     (SyncEngine_new (peer_with ''A'' []) (peer_with ''B'' [])))) \<and>
   queueForA (fst (run OpLog [SetOnline ''A'' False 0 0, LocalEdit PeerB 1 OriginOther 5,
                              SetOnline ''A'' True 6 7]
                     (SyncEngine_new (peer_with ''A'' []) (peer_with ''B'' [])))) = [] \<and>
   peerAOnline fresh_pair \<and> peerBOnline fresh_pair \<and>
   queueForB (fst (local_edit OpLog 5 fresh_pair PeerA 1 OriginOther)) = []"
  using queues_empty_when_fully_online
          [of OpLog "[SetOnline ''A'' False 0 0, LocalEdit PeerB 1 OriginOther 5, SetOnline ''A'' True 6 7]"
              "peer_with ''A'' []" "peer_with ''B'' []" fresh_pair 5 PeerA 1 OriginOther]
  by (simp add: scenario_defs run_defs)

text \<open>
  The claim as written fails: with slot A offline and slot B online, a local change
  on replica A is appended to the queue addressed to B, whose slot is online.
\<close>

theorem queue_to_online_peer_counterexample:
  "queueForB (fst (run OpLog [SetOnline ''A'' False 0 0, LocalEdit PeerA 1 OriginOther 5] fresh_pair))
     = [[0, 0, 1]] \<and>
   peerBOnline (fst (run OpLog [SetOnline ''A'' False 0 0, LocalEdit PeerA 1 OriginOther 5] fresh_pair))"
  by (simp add: scenario_defs run_defs)


section \<open>Teardown\<close>

lemma step_out: "(cb, ev) \<in> set (snd (step Y st a)) \<Longrightarrow> cb \<in> set (listeners st)"
  by (cases a) (auto simp: setOnline_def split: if_splits dest: local_edit_out reconcile_out)

lemma step_listeners:
  "c \<in> set (listeners (fst (step Y st a))) \<Longrightarrow> c \<in> set (listeners st) \<or> a = OnSyncEvent c"
  by (cases a)
     (auto simp: local_edit_fields setOnline_def reconcile_fields onSyncEvent_def offSyncEvent_def
        destroy_def split: if_splits)

lemma run_out:
  "(cb, ev) \<in> set (snd (run Y acts st)) \<Longrightarrow> cb \<in> set (listeners st) \<or> OnSyncEvent cb \<in> set acts"
proof (induction acts arbitrary: st)
  case Nil
  then show ?case by simp
next
  case (Cons a acts)
  from Cons.prems
  consider "(cb, ev) \<in> set (snd (step Y st a))" | "(cb, ev) \<in> set (snd (run Y acts (fst (step Y st a))))"
    by (auto simp: split_beta Let_def)
  then show ?case
  proof cases
    case 1
    then show ?thesis by (auto dest: step_out)
  next
    case 2
    then have "cb \<in> set (listeners (fst (step Y st a))) \<or> OnSyncEvent cb \<in> set acts"
      by (rule Cons.IH)
    then show ?thesis by (auto dest: step_listeners)
  qed
qed

text \<open>
  Claim C7. \<^verbatim>\<open>destroy\<close> is idempotent: a second call returns normally and
  changes nothing. After a \<^verbatim>\<open>destroy\<close> the observer list is empty and the engine's
  two handlers are no longer subscribed to the replicas' documents; whatever is done
  to the engine and the replicas afterwards, an observer receives a sync event only
  if it was registered again after the \<^verbatim>\<open>destroy\<close>. The function is total: it has
  no error result.
\<close>

theorem destroy_idempotent:
  "destroy (destroy st) = destroy st \<and>
   listeners (destroy st) = [] \<and>
   HandleAUpdate \<notin> observers (peerA (destroy st)) \<and>
   HandleBUpdate \<notin> observers (peerB (destroy st)) \<and>
   (\<forall>acts cb ev. (cb, ev) \<in> set (snd (run Y acts (destroy st))) \<longrightarrow> OnSyncEvent cb \<in> set acts)"
proof -
  have "OnSyncEvent cb \<in> set acts"
    if "(cb, ev) \<in> set (snd (run Y acts (destroy st)))" for acts cb ev
    using run_out [OF that] by (simp add: destroy_def)
  then show ?thesis
    by (simp add: destroy_def offUpdate_def)
qed

theorem destroy_idempotent_witness:
  "destroy (destroy unsynced_pair) = destroy unsynced_pair \<and>
   listeners (destroy unsynced_pair) = [] \<and>
   snd (run OpLog [OnSyncEvent 8, SetOnline ''A'' True 3 4] (destroy unsynced_pair)) =
     [(8, \<lparr>ev_from = ''A'', ev_to = ''B'', ev_bytes = 3, ev_timestamp = 4, ev_type = Reconnect\<rparr>)] \<and>
   OnSyncEvent 8 \<in> set [OnSyncEvent 8, SetOnline ''A'' True 3 4 :: 8 word action] \<and>
   snd (run OpLog [LocalEdit PeerA 2 OriginOther 1, SetOnline ''A'' True 3 4] (destroy unsynced_pair)) = []"
  using destroy_idempotent [of unsynced_pair OpLog]
  by (simp add: scenario_defs run_defs)


section \<open>Queueing then reconciling against relaying live\<close>

lemma contract_apply: "sync_contract Y h ops content \<Longrightarrow> h (y_applyUpdate Y d u orig) = h d \<union> ops u"
  unfolding sync_contract_def by blast
lemma contract_encode: "sync_contract Y h ops content \<Longrightarrow> ops (y_encodeStateAsUpdate Y d (y_encodeStateVector Y d')) = h d - h d'"
  unfolding sync_contract_def by blast
lemma contract_transact: "sync_contract Y h ops content \<Longrightarrow> h (fst (y_transact Y e orig d)) = h d \<union> ops (snd (y_transact Y e orig d))"
  unfolding sync_contract_def by blast
lemma contract_trivial: "sync_contract Y h ops content \<Longrightarrow> length u \<le> EMPTY_UPDATE_THRESHOLD \<Longrightarrow> ops u = {}"
  unfolding sync_contract_def by blast
lemma contract_content: "sync_contract Y h ops content \<Longrightarrow> h d = h d' \<Longrightarrow> content d = content d'"
  unfolding sync_contract_def by blast

text \<open>One edit on B while the link is fully online.\<close>

lemma online_edit_B:
  assumes "peerAOnline st" "peerBOnline st" "HandleBUpdate \<in> observers (peerB st)" "orig \<noteq> remote"
  shows "fst (local_edit Y now st PeerB e orig) =
           st\<lparr>peerB := (peerB st)\<lparr>doc := fst (y_transact Y e orig (doc (peerB st)))\<rparr>,
              peerA := applyUpdate Y (peerA st) (snd (y_transact Y e orig (doc (peerB st)))) remote\<rparr>"
  using assms
  by (simp add: local_edit_def Let_def split_beta peer_of_def set_peer_def handleBUpdate_def relay_def)

lemma offline_edit_B:
  assumes "\<not> peerAOnline st" "HandleBUpdate \<in> observers (peerB st)" "orig \<noteq> remote"
  shows "fst (local_edit Y now st PeerB e orig) =
           st\<lparr>peerB := (peerB st)\<lparr>doc := fst (y_transact Y e orig (doc (peerB st)))\<rparr>,
              queueForA := queueForA st @ [snd (y_transact Y e orig (doc (peerB st)))]\<rparr>"
  using assms
  by (simp add: local_edit_def Let_def split_beta peer_of_def set_peer_def handleBUpdate_def relay_def)

lemma run_edits_Cons:
  "fst (run Y (edits_on r ((e, orig, now) # es)) st) = fst (run Y (edits_on r es) (fst (local_edit Y now st r e orig)))"
  by (simp add: edits_on_def split_beta Let_def)

lemma online_run:
  assumes c: "sync_contract Y h ops content"
  shows "peerAOnline st \<Longrightarrow> peerBOnline st \<Longrightarrow> HandleBUpdate \<in> observers (peerB st) \<Longrightarrow>
     \<forall>(e, orig, now) \<in> set es. orig \<noteq> remote \<Longrightarrow>
     X \<subseteq> h (doc (peerA st)) \<Longrightarrow> h (doc (peerA st)) \<subseteq> X \<union> h (doc (peerB st)) \<Longrightarrow>
     h (doc (peerB st)) \<subseteq> h (doc (peerA st)) \<Longrightarrow>
     h (doc (peerA (fst (run Y (edits_on PeerB es) st)))) = X \<union> h (transact_all Y es (doc (peerB st)))"
proof (induction es arbitrary: st)
  case Nil
  then show ?case by (auto simp: edits_on_def)
next
  case (Cons x es)
  obtain e orig now where x: "x = (e, orig, now)" by (cases x)
  let ?st1 = "fst (local_edit Y now st PeerB e orig)"
  from Cons.prems x have o: "orig \<noteq> remote" by simp
  have st1: "?st1 = st\<lparr>peerB := (peerB st)\<lparr>doc := fst (y_transact Y e orig (doc (peerB st)))\<rparr>,
              peerA := applyUpdate Y (peerA st) (snd (y_transact Y e orig (doc (peerB st)))) remote\<rparr>"
    using Cons.prems(1,2,3) o by (rule online_edit_B)
  have hA: "h (doc (peerA ?st1)) = h (doc (peerA st)) \<union> ops (snd (y_transact Y e orig (doc (peerB st))))"
    by (simp add: st1 applyUpdate_def contract_apply [OF c])
  have hB: "h (doc (peerB ?st1)) = h (doc (peerB st)) \<union> ops (snd (y_transact Y e orig (doc (peerB st))))"
    by (simp add: st1 contract_transact [OF c])
  have dB: "doc (peerB ?st1) = fst (y_transact Y e orig (doc (peerB st)))"
    by (simp add: st1)
  have "h (doc (peerA (fst (run Y (edits_on PeerB es) ?st1)))) = X \<union> h (transact_all Y es (doc (peerB ?st1)))"
  proof (rule Cons.IH)
    show "peerAOnline ?st1" "peerBOnline ?st1" using Cons.prems(1,2) by (simp_all add: st1)
    show "HandleBUpdate \<in> observers (peerB ?st1)" using Cons.prems(3) by (simp add: st1)
    show "\<forall>(e, orig, now) \<in> set es. orig \<noteq> remote" using Cons.prems(4) by simp
    show "X \<subseteq> h (doc (peerA ?st1))" using Cons.prems(5) hA by blast
    show "h (doc (peerA ?st1)) \<subseteq> X \<union> h (doc (peerB ?st1))" using Cons.prems(6) hA hB by blast
    show "h (doc (peerB ?st1)) \<subseteq> h (doc (peerA ?st1))" using Cons.prems(7) hA hB by blast
  qed
  then show ?case
    by (simp add: x run_edits_Cons dB)
qed

lemma offline_run:
  "\<not> peerAOnline st \<Longrightarrow> HandleBUpdate \<in> observers (peerB st) \<Longrightarrow>
     \<forall>(e, orig, now) \<in> set es. orig \<noteq> remote \<Longrightarrow>
     (let st' = fst (run Y (edits_on PeerB es) st)
      in peerA st' = peerA st \<and> doc (peerB st') = transact_all Y es (doc (peerB st)) \<and>
         name (peerB st') = name (peerB st) \<and>
         \<not> peerAOnline st' \<and> peerBOnline st' = peerBOnline st)"
proof (induction es arbitrary: st)
  case Nil
  then show ?case by (simp add: edits_on_def)
next
  case (Cons x es)
  obtain e orig now where x: "x = (e, orig, now)" by (cases x)
  let ?st1 = "fst (local_edit Y now st PeerB e orig)"
  from Cons.prems x have o: "orig \<noteq> remote" by simp
  have st1: "?st1 = st\<lparr>peerB := (peerB st)\<lparr>doc := fst (y_transact Y e orig (doc (peerB st)))\<rparr>,
              queueForA := queueForA st @ [snd (y_transact Y e orig (doc (peerB st)))]\<rparr>"
    using Cons.prems(1,2) o by (rule offline_edit_B)
  have "let st' = fst (run Y (edits_on PeerB es) ?st1)
      in peerA st' = peerA ?st1 \<and> doc (peerB st') = transact_all Y es (doc (peerB ?st1)) \<and>
         name (peerB st') = name (peerB ?st1) \<and>
         \<not> peerAOnline st' \<and> peerBOnline st' = peerBOnline ?st1"
  proof (rule Cons.IH)
    show "\<not> peerAOnline ?st1" using Cons.prems(1) by (simp add: st1)
    show "HandleBUpdate \<in> observers (peerB ?st1)" using Cons.prems(2) by (simp add: st1)
    show "\<forall>(e, orig, now) \<in> set es. orig \<noteq> remote" using Cons.prems(3) by simp
  qed
  then show ?case
    by (simp add: x run_edits_Cons Let_def st1)
qed

lemma run_Cons_fst: "fst (run Y (a # as) st) = fst (run Y as (fst (step Y st a)))"
  by (simp add: split_beta Let_def)

lemma run_single: "fst (run Y [a] st) = fst (step Y st a)"
  by (simp add: split_beta Let_def)

lemma run_append: "fst (run Y (as @ bs) st) = fst (run Y bs (fst (run Y as st)))"
  by (induction as arbitrary: st) (simp_all add: split_beta Let_def)

lemma reconcile_docA:
  assumes c: "sync_contract Y h ops content"
  shows "h (doc (peerA (fst (reconcile Y nowA nowB st)))) = h (doc (peerA st)) \<union> h (doc (peerB st))"
proof -
  let ?u = "y_encodeStateAsUpdate Y (doc (peerB st)) (y_encodeStateVector Y (doc (peerA st)))"
  have ops: "ops ?u = h (doc (peerB st)) - h (doc (peerA st))" by (rule contract_encode [OF c])
  show ?thesis
  proof (cases "length ?u > EMPTY_UPDATE_THRESHOLD")
    case True
    then have "doc (peerA (fst (reconcile Y nowA nowB st))) = y_applyUpdate Y (doc (peerA st)) ?u remote"
      by (simp add: reconcile_def Let_def getStateVector_def encodeStateAsUpdate_def applyUpdate_def split_beta)
    then show ?thesis using ops by (auto simp: contract_apply [OF c])
  next
    case False
    then have d: "doc (peerA (fst (reconcile Y nowA nowB st))) = doc (peerA st)"
      by (simp add: reconcile_def Let_def getStateVector_def encodeStateAsUpdate_def applyUpdate_def split_beta)
    from False have "ops ?u = {}" by (intro contract_trivial [OF c]) simp
    with ops show ?thesis by (auto simp: d)
  qed
qed

lemma reconcile_docB:
  assumes c: "sync_contract Y h ops content"
  shows "h (doc (peerB (fst (reconcile Y nowA nowB st)))) = h (doc (peerA st)) \<union> h (doc (peerB st))"
proof -
  let ?u = "y_encodeStateAsUpdate Y (doc (peerA st)) (y_encodeStateVector Y (doc (peerB st)))"
  have ops: "ops ?u = h (doc (peerA st)) - h (doc (peerB st))" by (rule contract_encode [OF c])
  show ?thesis
  proof (cases "length ?u > EMPTY_UPDATE_THRESHOLD")
    case True
    then have "doc (peerB (fst (reconcile Y nowA nowB st))) = y_applyUpdate Y (doc (peerB st)) ?u remote"
      by (simp add: reconcile_def Let_def getStateVector_def encodeStateAsUpdate_def applyUpdate_def split_beta)
    then show ?thesis using ops by (auto simp: contract_apply [OF c])
  next
    case False
    then have d: "doc (peerB (fst (reconcile Y nowA nowB st))) = doc (peerB st)"
      by (simp add: reconcile_def Let_def getStateVector_def encodeStateAsUpdate_def applyUpdate_def split_beta)
    from False have "ops ?u = {}" by (intro contract_trivial [OF c]) simp
    with ops show ?thesis by (auto simp: d)
  qed
qed

lemma reconcile_observers:
  "observers (peerA (fst (reconcile Y nowA nowB st))) = observers (peerA st)"
  "observers (peerB (fst (reconcile Y nowA nowB st))) = observers (peerB st)"
  by (simp_all add: reconcile_def Let_def applyUpdate_def split_beta)

lemma online_edit_A:
  assumes "peerAOnline st" "peerBOnline st" "HandleAUpdate \<in> observers (peerA st)" "orig \<noteq> remote"
  shows "fst (local_edit Y now st PeerA e orig) =
           st\<lparr>peerA := (peerA st)\<lparr>doc := fst (y_transact Y e orig (doc (peerA st)))\<rparr>,
              peerB := applyUpdate Y (peerB st) (snd (y_transact Y e orig (doc (peerA st)))) remote\<rparr>"
  using assms
  by (simp add: local_edit_def Let_def split_beta peer_of_def set_peer_def handleAUpdate_def relay_def)

lemma local_edit_observers:
  "observers (peerA (fst (local_edit Y now st r e orig))) = observers (peerA st)"
  "observers (peerB (fst (local_edit Y now st r e orig))) = observers (peerB st)"
  by (cases r; simp add: local_edit_def Let_def split_beta peer_of_def set_peer_def
        handleAUpdate_def handleBUpdate_def relay_def applyUpdate_def)+

lemma step_in_sync:
  assumes c: "sync_contract Y h ops content" and i: "in_sync h st" and r: "regular a"
  shows "in_sync h (fst (step Y st a))"
proof (cases a)
  case (LocalEdit r e orig now)
  with \<open>regular a\<close> have o: "orig \<noteq> remote" by simp
  show ?thesis
  proof (cases "peerAOnline st \<and> peerBOnline st")
    case False
    then show ?thesis using i LocalEdit
      by (auto simp: in_sync_def local_edit_fields local_edit_observers)
  next
    case True
    show ?thesis
    proof (cases r)
      case PeerA
      have "fst (local_edit Y now st PeerA e orig) =
           st\<lparr>peerA := (peerA st)\<lparr>doc := fst (y_transact Y e orig (doc (peerA st)))\<rparr>,
              peerB := applyUpdate Y (peerB st) (snd (y_transact Y e orig (doc (peerA st)))) remote\<rparr>"
        using True i o by (intro online_edit_A) (simp_all add: in_sync_def)
      then show ?thesis using i True LocalEdit PeerA
        by (simp add: in_sync_def applyUpdate_def contract_apply [OF c] contract_transact [OF c])
    next
      case PeerB
      have "fst (local_edit Y now st PeerB e orig) =
           st\<lparr>peerB := (peerB st)\<lparr>doc := fst (y_transact Y e orig (doc (peerB st)))\<rparr>,
              peerA := applyUpdate Y (peerA st) (snd (y_transact Y e orig (doc (peerB st)))) remote\<rparr>"
        using True i o by (intro online_edit_B) (simp_all add: in_sync_def)
      then show ?thesis using i True LocalEdit PeerB
        by (simp add: in_sync_def applyUpdate_def contract_apply [OF c] contract_transact [OF c])
    qed
  qed
next
  case (SetOnline peerName online nowA nowB)
  then show ?thesis using i
    by (auto simp: in_sync_def setOnline_def reconcile_fields reconcile_observers
        reconcile_docA [OF c] reconcile_docB [OF c])
next
  case (OnSyncEvent cb)
  then show ?thesis using i by (simp add: in_sync_def onSyncEvent_def)
next
  case (OffSyncEvent cb)
  then show ?thesis using i by (simp add: in_sync_def offSyncEvent_def)
next
  case Destroy
  with r show ?thesis by simp
qed

lemma run_in_sync:
  assumes c: "sync_contract Y h ops content"
  shows "in_sync h st \<Longrightarrow> \<forall>a \<in> set acts. regular a \<Longrightarrow> in_sync h (fst (run Y acts st))"
proof (induction acts arbitrary: st)
  case Nil
  then show ?case by simp
next
  case (Cons a acts)
  from Cons.prems have "in_sync h (fst (step Y st a))" by (intro step_in_sync [OF c]) simp_all
  then have "in_sync h (fst (run Y acts (fst (step Y st a))))"
    using Cons.prems by (intro Cons.IH) simp_all
  then show ?case by (simp only: run_Cons_fst)
qed

text \<open>
  After any regular use of an engine constructed over two replicas that have seen the
  same operations, the engine is in sync: the preconditions of the next theorem hold
  in every such state in which both slots are online.
\<close>

lemma regular_use_keeps_in_sync:
  assumes "sync_contract Y h ops content" and "h (doc a) = h (doc b)"
    and "\<forall>x \<in> set acts. regular x"
  shows "in_sync h (fst (run Y acts (SyncEngine_new a b)))"
proof -
  have "in_sync h (SyncEngine_new a b)"
    using assms(2) by (simp add: in_sync_def SyncEngine_new_def onUpdate_def)
  then show ?thesis
    using assms(3) by (rule run_in_sync [OF assms(1)])
qed

lemma OpLog_contract: "sync_contract OpLog set (\<lambda>u. set (drop 2 u)) set"
  by (auto simp: sync_contract_def OpLog_def EMPTY_UPDATE_THRESHOLD_def)

text \<open>
  Claim C5, as amended. Let the document engine meet its contract, let both slots be
  online, let the engine be subscribed to replica B, and let replica A have seen
  everything replica B has seen (by \<open>regular_use_keeps_in_sync\<close> this is so in every fully
  online state that regular use reaches from replicas in sync). For every sequence
  of local edits on replica B: setting A offline, making the edits on B and setting
  A online again leaves replica A with the same content as making the same edits on
  B with both peers online throughout. The events of the two runs are not compared.
\<close>

theorem queue_then_reconcile_equivalence:
  assumes c: "sync_contract Y h ops content"
    and on: "peerAOnline st" "peerBOnline st"
    and sub: "HandleBUpdate \<in> observers (peerB st)"
    and seen: "h (doc (peerB st)) \<subseteq> h (doc (peerA st))"
    and local: "\<forall>(e, orig, now) \<in> set es. orig \<noteq> remote"
  shows "content (doc (peerA (fst (run Y (SetOnline (name (peerA st)) False t1 t2 #
                                          edits_on PeerB es @
                                          [SetOnline (name (peerA st)) True t3 t4]) st)))) =
         content (doc (peerA (fst (run Y (edits_on PeerB es) st))))"
proof -
  let ?off = "st\<lparr>peerAOnline := False\<rparr>"
  let ?mid = "fst (run Y (edits_on PeerB es) ?off)"
  let ?D = "transact_all Y es (doc (peerB st))"
  have online: "h (doc (peerA (fst (run Y (edits_on PeerB es) st)))) = h (doc (peerA st)) \<union> h ?D"
    using c on sub local _ _ seen by (rule online_run) auto
  have mid: "let st' = ?mid
      in peerA st' = peerA ?off \<and> doc (peerB st') = transact_all Y es (doc (peerB ?off)) \<and>
         name (peerB st') = name (peerB ?off) \<and>
         \<not> peerAOnline st' \<and> peerBOnline st' = peerBOnline ?off"
    using sub local by (intro offline_run) simp_all
  have first: "fst (step Y st (SetOnline (name (peerA st)) False t1 t2)) = ?off"
    by (simp add: setOnline_def)
  have last: "fst (step Y ?mid (SetOnline (name (peerA st)) True t3 t4)) =
      fst (reconcile Y t3 t4 (?mid\<lparr>peerAOnline := True\<rparr>))"
    using mid on by (simp add: setOnline_def Let_def)
  have "fst (run Y (SetOnline (name (peerA st)) False t1 t2 # edits_on PeerB es @
                     [SetOnline (name (peerA st)) True t3 t4]) st) =
        fst (reconcile Y t3 t4 (?mid\<lparr>peerAOnline := True\<rparr>))"
    by (simp only: run_Cons_fst run_append run.simps(1) fst_conv first last)
  then have "h (doc (peerA (fst (run Y (SetOnline (name (peerA st)) False t1 t2 # edits_on PeerB es @
                     [SetOnline (name (peerA st)) True t3 t4]) st)))) = h (doc (peerA st)) \<union> h ?D"
    using mid by (simp add: reconcile_docA [OF c] Let_def)
  with online show ?thesis
    by (intro contract_content [OF c]) simp
qed

theorem queue_then_reconcile_equivalence_witness:
  "sync_contract OpLog set (\<lambda>u. set (drop 2 u)) set \<and>
   peerAOnline fresh_pair \<and> peerBOnline fresh_pair \<and>
   HandleBUpdate \<in> observers (peerB fresh_pair) \<and>
   set (doc (peerB fresh_pair)) \<subseteq> set (doc (peerA fresh_pair)) \<and>
   set (doc (peerA (fst (run OpLog (SetOnline ''A'' False 0 0 #
                                     edits_on PeerB [(1, OriginOther, 10), (2, OriginOther, 11)] @
                                     [SetOnline ''A'' True 20 21]) fresh_pair)))) = {1, 2} \<and>
   set (doc (peerA (fst (run OpLog (edits_on PeerB [(1, OriginOther, 10), (2, OriginOther, 11)])
                          fresh_pair)))) = {1, 2}"
  using OpLog_contract
        queue_then_reconcile_equivalence
          [OF OpLog_contract, of fresh_pair "[(1, OriginOther, 10), (2, OriginOther, 11)]" 0 0 20 21]
  by (simp add: scenario_defs run_defs edits_on_def)

text \<open>
  The claim as written fails when replica B holds an operation that replica A has
  not seen, as after constructing the engine over replicas that are not in sync:
  going offline and back online brings replica A everything replica B holds, while
  relaying live brings it only the new edit.
\<close>

theorem queue_then_reconcile_unsynced_counterexample:
  "sync_contract OpLog set (\<lambda>u. set (drop 2 u)) set \<and>
   peerAOnline behind_pair \<and> peerBOnline behind_pair \<and>
   HandleBUpdate \<in> observers (peerB behind_pair) \<and>
   doc (peerA (fst (run OpLog (SetOnline ''A'' False 0 0 #
                                edits_on PeerB [(2, OriginOther, 10)] @
                                [SetOnline ''A'' True 20 21]) behind_pair))) = [1, 2] \<and>
   doc (peerA (fst (run OpLog (edits_on PeerB [(2, OriginOther, 10)]) behind_pair))) = [2] \<and>
   set (doc (peerA (fst (run OpLog (SetOnline ''A'' False 0 0 #
                                     edits_on PeerB [(2, OriginOther, 10)] @
                                     [SetOnline ''A'' True 20 21]) behind_pair)))) \<noteq>
   set (doc (peerA (fst (run OpLog (edits_on PeerB [(2, OriginOther, 10)]) behind_pair))))"
  using OpLog_contract
  by (simp add: scenario_defs run_defs edits_on_def)

end
